theory Spec2Isabelle
  imports Main
begin

section \<open>Python strings and paths\<close>

text \<open>
  Strings are \<open>char list\<close>. The program's strings are Python \<open>str\<close> values; every
  character is read as a code point below 256.
\<close>

text \<open>\<open>str.split(sep)\<close> for a one-character separator: never an empty list.\<close>

fun py_split :: "char \<Rightarrow> string \<Rightarrow> string list" where
  "py_split sep [] = [[]]"
| "py_split sep (c # cs) =
     (if c = sep then [] # py_split sep cs
      else (case py_split sep cs of
              [] \<Rightarrow> [[c]]
            | p # ps \<Rightarrow> (c # p) # ps))"

text \<open>\<open>str.isspace\<close> on one character, for the code points below 256.\<close>

definition py_isspace :: "char \<Rightarrow> bool" where
  "py_isspace c =
     (let n = (of_char c :: nat)
      in (9 \<le> n \<and> n \<le> 13) \<or> (28 \<le> n \<and> n \<le> 32) \<or> n = 133 \<or> n = 160)"

text \<open>\<open>str.strip()\<close>: whitespace removed at both ends only.\<close>

definition py_strip :: "string \<Rightarrow> string" where
  "py_strip s = rev (dropWhile py_isspace (rev (dropWhile py_isspace s)))"

text \<open>\<open>str.rfind(c)\<close>: the index of the last occurrence, \<open>-1\<close> when there is none.\<close>

fun py_rfind :: "char \<Rightarrow> string \<Rightarrow> int" where
  "py_rfind c [] = -1"
| "py_rfind c (x # xs) =
     (let r = py_rfind c xs
      in if 0 \<le> r then r + 1 else if x = c then 0 else -1)"

text \<open>
  Iterating over a text stream: the lines of the text, each with its newline, the last
  one possibly without.
\<close>

fun py_lines :: "string \<Rightarrow> string list" where
  "py_lines [] = []"
| "py_lines (c # cs) =
     (if c = CHR 0x0A then [c] # py_lines cs
      else (case py_lines cs of
              [] \<Rightarrow> [[c]]
            | l # ls \<Rightarrow> (c # l) # ls))"

text \<open>
  A resolved path (\<open>pathlib.Path.resolve\<close>) is absolute and normalised: the list of its
  components below the root \<open>/\<close>.
\<close>

type_synonym path = "string list"

fun join_slash :: "string list \<Rightarrow> string" where
  "join_slash [] = []"
| "join_slash [c] = c"
| "join_slash (c # cs) = c @ ''/'' @ join_slash cs"

text \<open>\<open>str(path)\<close> of an absolute path.\<close>

definition path_str :: "path \<Rightarrow> string" where
  "path_str p = ''/'' @ join_slash p"

text \<open>\<open>path.parent\<close>: the root is its own parent.\<close>

definition path_parent :: "path \<Rightarrow> path" where
  "path_parent p = butlast p"

text \<open>\<open>path.name\<close>: the final component, empty for the root.\<close>

definition path_name :: "path \<Rightarrow> string" where
  "path_name p = (case rev p of [] \<Rightarrow> [] | c # _ \<Rightarrow> c)"

text \<open>
  \<open>path.stem\<close>, as pathlib computes it from the name:
  \<^verbatim>\<open>i = name.rfind('.'); name[:i] if 0 < i < len(name) - 1 else name\<close>.
\<close>

definition path_stem :: "path \<Rightarrow> string" where
  "path_stem p =
     (let name = path_name p; i = py_rfind (CHR ''.'') name
      in if 0 < i \<and> i < int (length name) - 1 then take (nat i) name else name)"

text \<open>\<open>path / name\<close>.\<close>

definition path_join :: "path \<Rightarrow> string \<Rightarrow> path" where
  "path_join p c = p @ [c]"

section \<open>Errors\<close>

text \<open>
  The five exception classes of \<open>phantombuild.py\<close>, and the built-in exceptions the two
  files can raise: \<open>ValueError\<close> (raised by \<open>main\<close>), \<open>IndexError\<close> (a list index out of
  range), \<open>UnboundLocalError\<close> (a local read before assignment), \<open>OSError\<close> (a failed
  operating system call: spawning a process, opening, copying, creating a directory) and
  click's usage error for a missing required option.
\<close>

datatype error =
    RepoError string
  | PatchError string
  | CompileError string
  | SetupError string
  | HDF5LibraryNotFound string
  | ValueError string
  | IndexError
  | UnboundLocalError string
  | OSError
  | UsageError

section \<open>The command line's make options\<close>

text \<open>
  A Python \<open>dict\<close> of strings: the items in insertion order, the keys distinct.
  Assigning to a key that is present replaces its value in place.
\<close>

type_synonym pydict = "(string \<times> string) list"

fun dict_set :: "pydict \<Rightarrow> string \<Rightarrow> string \<Rightarrow> pydict" where
  "dict_set [] k v = [(k, v)]"
| "dict_set ((k', v') # d) k v =
     (if k' = k then (k, v) # d else (k', v') # dict_set d k v)"

text \<open>
  The dict comprehension of \<open>_convert_make_options_to_dict\<close>:
  \<^verbatim>\<open>{_s.split('=')[0]: _s.split('=')[1] for _s in string.split(',')}\<close>.
  Index 1 of a one-element list raises \<open>IndexError\<close>.
\<close>

fun make_options_items :: "string list \<Rightarrow> pydict \<Rightarrow> error + pydict" where
  "make_options_items [] d = Inr d"
| "make_options_items (s # ss) d =
     (case py_split (CHR ''='') s of
        k # v # _ \<Rightarrow> make_options_items ss (dict_set d k v)
      | _ \<Rightarrow> Inl IndexError)"

text \<open>\<open>string.replace(' ', '')\<close>: every space character removed, and only those.\<close>

definition replace_space :: "string \<Rightarrow> string" where
  "replace_space s = filter (\<lambda>c. c \<noteq> CHR '' '') s"

definition convert_make_options_to_dict :: "string \<Rightarrow> error + pydict" where
  "convert_make_options_to_dict string =
     make_options_items (py_split (CHR '','') (replace_space string)) []"

text \<open>
  The same conversion as the specification words it: whitespace stripped first, then
  each comma-separated pair split on its first \<open>=\<close> only, the key before it and the
  value everything after it.
\<close>

definition split_first_eq :: "string \<Rightarrow> string \<times> string" where
  "split_first_eq s =
     (takeWhile (\<lambda>c. c \<noteq> CHR ''='') s, drop 1 (dropWhile (\<lambda>c. c \<noteq> CHR ''='') s))"

fun spec_items :: "string list \<Rightarrow> pydict \<Rightarrow> pydict" where
  "spec_items [] d = d"
| "spec_items (s # ss) d =
     (case split_first_eq s of (k, v) \<Rightarrow> spec_items ss (dict_set d k v))"

definition spec_convert_make_options :: "string \<Rightarrow> pydict" where
  "spec_convert_make_options string =
     spec_items (py_split (CHR '','') (filter (\<lambda>c. \<not> py_isspace c) string)) []"

section \<open>The world outside the program\<close>

text \<open>
  The program acts on the world through external commands (\<open>subprocess.run\<close>,
  \<open>subprocess.Popen\<close>) and file operations. Each such action is an event, appended
  to the trace in the order the program performs it. A \<open>Run\<close> event records the
  argument vector, the working directory and where the standard output goes.
\<close>

datatype dest = Inherit | Pipe | To_file path

datatype event =
    Run "string list" path dest
  | Open_write path
  | Mkdir path
  | Copy path path
  | Write_file path string
  | Write_stdout string

text \<open>
  What the world answers is a parameter: an environment whose answers may depend on
  everything the program has done so far (the trace at the time of the call).
  \<^item> \<open>resolve_str\<close>: \<open>pathlib.Path(inp).expanduser().resolve()\<close> of a path given as text;
  \<^item> \<open>resolve\<close>: \<open>.resolve()\<close> of a path that is already absolute;
  \<^item> \<open>home\<close>: \<open>pathlib.Path.home()\<close>;
  \<^item> \<open>path_exists\<close>: \<open>path.exists()\<close>;
  \<^item> \<open>proc\<close>: the exit status and the standard output of an external command, or
    \<open>None\<close> when the process cannot be started (\<open>OSError\<close>);
  \<^item> \<open>os_ok\<close>: whether a file operation (open for writing, mkdir, copy) succeeds.
\<close>

record env =
  resolve_str :: "string \<Rightarrow> path"
  resolve :: "path \<Rightarrow> path"
  home :: path
  path_exists :: "event list \<Rightarrow> path \<Rightarrow> bool"
  proc :: "event list \<Rightarrow> string list \<Rightarrow> path \<Rightarrow> (int \<times> string) option"
  os_ok :: "event list \<Rightarrow> event \<Rightarrow> bool"

text \<open>
  The program's state: the trace of events and the records handed to \<open>LOGGER\<close>
  (level and message).
\<close>

record world =
  trace :: "event list"
  logged :: "(string \<times> string) list"

type_synonym 'a prog = "world \<Rightarrow> (error + 'a) \<times> world"

definition return_res :: "'a \<Rightarrow> 'a prog" where
  "return_res x w = (Inr x, w)"

definition raise_res :: "error \<Rightarrow> 'a prog" where
  "raise_res e w = (Inl e, w)"

text \<open>Sequencing: an exception of the first statement skips the rest.\<close>

definition bind_res :: "'a prog \<Rightarrow> ('a \<Rightarrow> 'b prog) \<Rightarrow> 'b prog" where
  "bind_res m f w = (case m w of (Inl e, w') \<Rightarrow> (Inl e, w') | (Inr x, w') \<Rightarrow> f x w')"

definition emit :: "event \<Rightarrow> world \<Rightarrow> world" where
  "emit ev w = w\<lparr>trace := trace w @ [ev]\<rparr>"

definition log_info :: "string \<Rightarrow> world \<Rightarrow> world" where
  "log_info msg w = w\<lparr>logged := logged w @ [(''INFO'', msg)]\<rparr>"

definition log_error :: "string \<Rightarrow> world \<Rightarrow> world" where
  "log_error msg w = w\<lparr>logged := logged w @ [(''ERROR'', msg)]\<rparr>"

text \<open>\<open>subprocess.run\<close>: waits for the command; the result has its exit status.\<close>

record completed =
  returncode :: int
  stdout :: string

definition subprocess_run :: "env \<Rightarrow> string list \<Rightarrow> path \<Rightarrow> dest \<Rightarrow> completed prog" where
  "subprocess_run env argv cwd d w =
     (case proc env (trace w) argv cwd of
        None \<Rightarrow> (Inl OSError, emit (Run argv cwd d) w)
      | Some (rc, out) \<Rightarrow> (Inr \<lparr>returncode = rc, stdout = out\<rparr>, emit (Run argv cwd d) w))"

text \<open>
  \<open>subprocess.Popen\<close>: starts the command and returns at once. The attribute
  \<open>returncode\<close> of the new object is \<open>None\<close>; only \<open>poll()\<close>, \<open>wait()\<close> and
  \<open>communicate()\<close> set it. Reading the pipe to its end does not.
\<close>

record popen =
  popen_returncode :: "int option"
  popen_stdout :: string

definition subprocess_Popen :: "env \<Rightarrow> string list \<Rightarrow> path \<Rightarrow> dest \<Rightarrow> popen prog" where
  "subprocess_Popen env argv cwd d w =
     (case proc env (trace w) argv cwd of
        None \<Rightarrow> (Inl OSError, emit (Run argv cwd d) w)
      | Some (rc, out) \<Rightarrow>
          (Inr \<lparr>popen_returncode = None, popen_stdout = out\<rparr>, emit (Run argv cwd d) w))"

text \<open>A file operation: attempted, so in the trace, and failed with \<open>OSError\<close> or not.\<close>

definition os_call :: "env \<Rightarrow> event \<Rightarrow> unit prog" where
  "os_call env ev w =
     (if os_ok env (trace w) ev then (Inr (), emit ev w) else (Inl OSError, emit ev w))"

section \<open>phantombuild.py\<close>

definition resolved_path :: "env \<Rightarrow> string \<Rightarrow> path" where
  "resolved_path env inp = resolve_str env inp"

text \<open>
  \<open>_nice_path\<close>, on an absolute path (its anchor is \<open>/\<close>): relative to the home
  directory when it lies below it. The text of an empty relative path is a dot.
\<close>

definition nice_path :: "env \<Rightarrow> path \<Rightarrow> string" where
  "nice_path env p =
     (if take (length (home env)) p = home env
      then ''~'' @ (case drop (length (home env)) p of [] \<Rightarrow> ''.'' | c # cs \<Rightarrow> join_slash (c # cs))
      else path_str p)"

definition banner :: "string \<Rightarrow> world \<Rightarrow> world" where
  "banner title w =
     log_info ''------------------------------------------------''
       (log_info title
         (log_info ''------------------------------------------------'' w))"

definition accepted_origins :: "string list" where
  "accepted_origins =
     [''git@bitbucket.org:danielprice/phantom'',
      ''git@bitbucket.org:danielprice/phantom.git'',
      ''https://bitbucket.org/danielprice/phantom'',
      ''https://bitbucket.org/danielprice/phantom.git'']"

definition git_clone_cmd :: "path \<Rightarrow> string list" where
  "git_clone_cmd phantom_dir =
     [''git'', ''clone'', ''https://bitbucket.org/danielprice/phantom.git'', path_stem phantom_dir]"

definition git_origin_cmd :: "string list" where
  "git_origin_cmd = [''git'', ''config'', ''--local'', ''--get'', ''remote.origin.url'']"

definition get_phantom :: "env \<Rightarrow> string \<Rightarrow> bool prog" where
  "get_phantom env phantom_dir w0 =
     (let w1 = banner ''>>> Getting Phantom'' w0;
          pd = resolved_path env phantom_dir
      in if \<not> path_exists env (trace w1) pd then
           bind_res (subprocess_run env (git_clone_cmd pd) (path_parent pd) Inherit)
             (\<lambda>result w.
                if returncode result \<noteq> 0
                then (Inl (RepoError ''Fail to clone repo''), log_info ''Phantom clone failed'' w)
                else (Inr True, log_info ''Phantom successfully cloned'' w))
             (log_info (''phantom_dir: '' @ nice_path env pd)
               (log_info ''Cloning fresh copy of Phantom'' w1))
         else
           bind_res (subprocess_run env git_origin_cmd pd Pipe)
             (\<lambda>result w.
                if py_strip (stdout result) \<notin> set accepted_origins
                then (Inl (RepoError ''phantom_dir is not Phantom''),
                      log_info ''phantom_dir is not Phantom'' w)
                else (Inr True,
                      log_info (''phantom_dir: '' @ nice_path env pd)
                        (log_info ''Phantom already cloned'' w)))
             w1)"

text \<open>
  \<open>checkout_phantom_version\<close>, in its two parts. First the block "Check git commit
  hash": the checkout is issued when the text of \<open>git rev-parse HEAD\<close> differs from the
  required hash as given.
\<close>

definition git_checkout_cmd :: "string \<Rightarrow> string list" where
  "git_checkout_cmd required_hash = [''git'', ''checkout'', required_hash]"

definition checkout_if_needed :: "env \<Rightarrow> path \<Rightarrow> string \<Rightarrow> unit prog" where
  "checkout_if_needed env pd required_phantom_git_commit_hash =
     bind_res (subprocess_run env [''git'', ''rev-parse'', ''HEAD''] pd Pipe)
       (\<lambda>r1.
     bind_res (subprocess_run env
                 [''git'', ''rev-parse'', ''--short'', required_phantom_git_commit_hash] pd Pipe)
       (\<lambda>r2 w.
          let phantom_git_commit_hash = py_strip (stdout r1);
              short_hash = py_strip (stdout r2)
          in if phantom_git_commit_hash \<noteq> required_phantom_git_commit_hash then
               bind_res
                 (subprocess_run env (git_checkout_cmd required_phantom_git_commit_hash) pd Inherit)
                 (\<lambda>result w'.
                    if returncode result \<noteq> 0
                    then (Inl (RepoError ''Failed to checkout required version''),
                          log_info ''Failed to checkout required version'' w')
                    else (Inr (), log_info ''Successfully checked out required version'' w'))
                 (log_info (''Git commit hash: '' @ short_hash)
                   (log_info ''Checking out required Phantom version'' w))
             else
               (Inr (),
                log_info (''Git commit hash: '' @ short_hash)
                  (log_info ''Required version of Phantom already checked out'' w))))"

text \<open>
  Then the block "Check if clean": the three commands all run, their results are
  collected, and any non-zero exit status among them raises.
\<close>

definition clean_if_dirty :: "env \<Rightarrow> path \<Rightarrow> bool prog" where
  "clean_if_dirty env pd =
     bind_res (subprocess_run env [''git'', ''status'', ''--porcelain''] pd Pipe)
       (\<lambda>r w.
          let git_status = py_strip (stdout r)
          in if \<not> git_status = [] then
               bind_res (subprocess_run env [''git'', ''reset'', ''HEAD''] pd Inherit)
                 (\<lambda>a.
               bind_res (subprocess_run env [''git'', ''clean'', ''--force''] pd Inherit)
                 (\<lambda>b.
               bind_res (subprocess_run env [''git'', ''checkout'', ''--'', ''*''] pd Inherit)
                 (\<lambda>c w'.
                    if list_ex (\<lambda>result. returncode result \<noteq> 0) [a, b, c]
                    then (Inl (RepoError ''Failed to clean repo''),
                          log_info ''Failed to clean repo'' w')
                    else (Inr True, log_info ''Successfully cleaned repo'' w'))))
                 (log_info ''Cleaning repository'' w)
             else (Inr True, w))"

definition checkout_phantom_version :: "env \<Rightarrow> string \<Rightarrow> string \<Rightarrow> bool prog" where
  "checkout_phantom_version env phantom_dir required_phantom_git_commit_hash w0 =
     (let w1 = banner ''>>> Checking out required Phantom version'' w0;
          pd = resolved_path env phantom_dir
      in bind_res (checkout_if_needed env pd required_phantom_git_commit_hash)
           (\<lambda>_. clean_if_dirty env pd) w1)"

definition patch_phantom :: "env \<Rightarrow> string \<Rightarrow> string \<Rightarrow> bool prog" where
  "patch_phantom env phantom_dir phantom_patch w0 =
     (let w1 = banner ''>>> Applying patch to Phantom'' w0;
          pd = resolved_path env phantom_dir;
          pp = resolved_path env phantom_patch;
          w2 = log_info (''Patch file: '' @ nice_path env pp) w1
      in bind_res (subprocess_run env [''git'', ''apply'', path_str pp] pd Inherit)
           (\<lambda>result w.
              if returncode result \<noteq> 0
              then (Inl (PatchError ''Fail to patch Phantom''), log_error ''Failed to patch Phantom'' w)
              else (Inr True, log_info ''Successfully patched Phantom'' w))
           w2)"

text \<open>
  \<open>build_phantom\<close>. The make command is built first; the log file is opened and the
  command run afterwards.
\<close>

definition make_base :: "string \<Rightarrow> string \<Rightarrow> string list" where
  "make_base setup system =
     [''make'', ''SETUP='' @ setup, ''SYSTEM='' @ system, ''phantom'', ''setup'']"

definition make_extra :: "pydict \<Rightarrow> string list" where
  "make_extra extra_makefile_options = map (\<lambda>(key, val). key @ ''='' @ val) extra_makefile_options"

definition see_build_log :: "string \<Rightarrow> string" where
  "see_build_log name = ''See '' @ [CHR 0x22] @ name @ [CHR 0x22] @ '' in Phantom build dir''"

definition build_phantom ::
  "env \<Rightarrow> string \<Rightarrow> string \<Rightarrow> string \<Rightarrow> string option \<Rightarrow> pydict option \<Rightarrow> bool prog" where
  "build_phantom env phantom_dir setup system hdf5_location extra_makefile_options w0 =
     (let w1 = banner ''>>> Building Phantom'' w0;
          pd = resolved_path env phantom_dir;
          make_command = make_base setup system
      in bind_res
           (case hdf5_location of
              None \<Rightarrow> return_res make_command
            | Some h \<Rightarrow>
                (\<lambda>w. let hl = resolved_path env h
                     in if \<not> path_exists env (trace w) hl
                        then (Inl (HDF5LibraryNotFound ''Cannot determine HDF5 library location''), w)
                        else (Inr (make_command
                                    @ [''HDF5=yes'', ''HDF5ROOT='' @ path_str (resolve env hl)]), w)))
           (\<lambda>make_command.
              let make_command =
                    (case extra_makefile_options of
                       None \<Rightarrow> make_command
                     | Some d \<Rightarrow> make_command @ make_extra d);
                  build_log = path_join (path_join pd ''build'') ''build_output.log''
              in bind_res (os_call env (Open_write build_log))
                   (\<lambda>_.
                 bind_res (subprocess_run env make_command pd (To_file build_log))
                   (\<lambda>result w.
                      if returncode result \<noteq> 0
                      then (Inl (CompileError ''Phantom failed to compile''),
                            log_info (see_build_log (path_name build_log))
                              (log_info ''Phantom failed to compile'' w))
                      else (Inr True,
                            log_info (see_build_log (path_name build_log))
                              (log_info ''Successfully compiled Phantom'' w)))))
           w1)"

text \<open>
  \<open>setup_calculation\<close>. The loop over the three binaries copies each in turn; the
  loop over the lines of the setup binary's output writes each line to the standard
  output and to the log file. After the loop the code reads \<open>result.returncode\<close> of the
  \<open>Popen\<close> object, on which it has called neither \<open>wait\<close> nor \<open>poll\<close>; in Python
  \<open>None != 0\<close> is true.
\<close>

fun copy_all :: "env \<Rightarrow> path list \<Rightarrow> path \<Rightarrow> unit prog" where
  "copy_all env [] dst = return_res ()"
| "copy_all env (src # srcs) dst =
     bind_res (os_call env (Copy src dst)) (\<lambda>_. copy_all env srcs dst)"

fun tee_lines :: "path \<Rightarrow> string list \<Rightarrow> world \<Rightarrow> world" where
  "tee_lines f [] w = w"
| "tee_lines f (line # lines) w =
     tee_lines f lines (emit (Write_file f line) (emit (Write_stdout line) w))"

definition setup_calculation :: "env \<Rightarrow> string \<Rightarrow> string \<Rightarrow> string \<Rightarrow> string \<Rightarrow> bool prog" where
  "setup_calculation env prefix run_dir input_dir phantom_dir =
     (let rd = resolved_path env run_dir;
          ind = resolved_path env input_dir;
          pd = resolved_path env phantom_dir;
          logf = path_join rd (prefix @ ''00.log'')
      in bind_res
           (\<lambda>w. if \<not> path_exists env (trace w) rd then os_call env (Mkdir rd) w else (Inr (), w))
           (\<lambda>_.
         bind_res
           (copy_all env
              (map (\<lambda>file. path_join (path_join pd ''bin'') file)
                 [''phantom'', ''phantomsetup'', ''phantom_version''])
              rd)
           (\<lambda>_.
         bind_res (os_call env (Copy (path_join ind (prefix @ ''.setup'')) rd))
           (\<lambda>_.
         bind_res (os_call env (Copy (path_join ind (prefix @ ''.in'')) rd))
           (\<lambda>_.
         bind_res (os_call env (Open_write logf))
           (\<lambda>_.
         bind_res (subprocess_Popen env [''./phantomsetup'', prefix] rd Pipe)
           (\<lambda>result w.
              let w' = tee_lines logf (py_lines (popen_stdout result)) w
              in if popen_returncode result \<noteq> Some 0
                 then (Inl (SetupError ''Phantom failed to set up calculation''),
                       log_info ''Phantom failed to set up calculation'' w')
                 else bind_res (os_call env (Copy (path_join ind (prefix @ ''.in'')) rd))
                        (\<lambda>_. return_res True)
                        (log_info ''Successfully set up Phantom calculation'' w'))))))))"

section \<open>The orchestrator\<close>

text \<open>
  \<open>__main__.py\<close> imports \<open>build_and_setup\<close> from \<open>phantombuild.py\<close> and calls it once
  per run; \<open>phantombuild.py\<close> does not define it. The three definitions of this section
  are written from the specification's section 4.6, over the five functions above.
\<close>

text \<open>
  Modelled from the spec: the directory of the setup inputs, "derived as the parent
  directory of the given setup/in files". The function is missing with
  \<open>build_and_setup\<close>; here it is the text before the last slash of the setup file's
  path, a dot when the path has no slash.
\<close>

definition dirname :: "string \<Rightarrow> string" where
  "dirname s =
     (let i = py_rfind (CHR ''/'') s
      in if i < 0 then ''.'' else if i = 0 then ''/'' else take (nat i) s)"

text \<open>
  Modelled from the spec: the loop of \<open>build_and_setup\<close> over the patches, missing with
  it: "apply each patch in the given order (if any)".
\<close>

fun apply_patches :: "env \<Rightarrow> string \<Rightarrow> string list \<Rightarrow> bool prog" where
  "apply_patches env phantom_dir [] = return_res True"
| "apply_patches env phantom_dir (patch # patches) =
     bind_res (patch_phantom env phantom_dir patch)
       (\<lambda>_. apply_patches env phantom_dir patches)"

text \<open>
  Modelled from the spec: \<open>build_and_setup\<close>, missing from \<open>phantombuild.py\<close>.
  "Sequentially: get repository, checkout version (if a version is specified), apply
  each patch in the given order (if any), build, then set up the calculation. Any failure
  in a step aborts the remaining steps for that run descriptor (exception propagates)."
  The job script is accepted and not used.
\<close>

definition build_and_setup ::
  "env \<Rightarrow> string \<Rightarrow> string \<Rightarrow> string \<Rightarrow> string \<Rightarrow> string option \<Rightarrow> string \<Rightarrow> string option
     \<Rightarrow> string list option \<Rightarrow> string \<Rightarrow> string \<Rightarrow> pydict option \<Rightarrow> string option \<Rightarrow> bool prog" where
  "build_and_setup env prefix run_dir setup_file in_file job_script phantom_dir phantom_version
       phantom_patches phantom_setup phantom_system phantom_extra_flags hdf5_dir =
     bind_res (get_phantom env phantom_dir)
       (\<lambda>_.
     bind_res
       (case phantom_version of
          None \<Rightarrow> return_res True
        | Some version \<Rightarrow> checkout_phantom_version env phantom_dir version)
       (\<lambda>_.
     bind_res
       (case phantom_patches of
          None \<Rightarrow> return_res True
        | Some patches \<Rightarrow> apply_patches env phantom_dir patches)
       (\<lambda>_.
     bind_res
       (build_phantom env phantom_dir phantom_setup phantom_system hdf5_dir phantom_extra_flags)
       (\<lambda>_. setup_calculation env prefix run_dir (dirname setup_file) phantom_dir))))"

text \<open>
  The pipeline as a list of steps, and the execution of a list of steps in order, one
  after the other, stopping at the first that fails.
\<close>

datatype step =
    Get_repository
  | Checkout_version string
  | Apply_patch string
  | Build
  | Setup_calculation

definition pipeline_steps :: "string option \<Rightarrow> string list option \<Rightarrow> step list" where
  "pipeline_steps phantom_version phantom_patches =
     [Get_repository]
     @ (case phantom_version of None \<Rightarrow> [] | Some version \<Rightarrow> [Checkout_version version])
     @ (case phantom_patches of None \<Rightarrow> [] | Some patches \<Rightarrow> map Apply_patch patches)
     @ [Build, Setup_calculation]"

fun step_action ::
  "env \<Rightarrow> string \<Rightarrow> string \<Rightarrow> string \<Rightarrow> string \<Rightarrow> string \<Rightarrow> string \<Rightarrow> pydict option
     \<Rightarrow> string option \<Rightarrow> step \<Rightarrow> bool prog" where
  "step_action env prefix run_dir setup_file phantom_dir setup system flags hdf5 Get_repository =
     get_phantom env phantom_dir"
| "step_action env prefix run_dir setup_file phantom_dir setup system flags hdf5
       (Checkout_version version) =
     checkout_phantom_version env phantom_dir version"
| "step_action env prefix run_dir setup_file phantom_dir setup system flags hdf5
       (Apply_patch patch) =
     patch_phantom env phantom_dir patch"
| "step_action env prefix run_dir setup_file phantom_dir setup system flags hdf5 Build =
     build_phantom env phantom_dir setup system hdf5 flags"
| "step_action env prefix run_dir setup_file phantom_dir setup system flags hdf5
       Setup_calculation =
     setup_calculation env prefix run_dir (dirname setup_file) phantom_dir"

fun run_steps :: "(step \<Rightarrow> bool prog) \<Rightarrow> step list \<Rightarrow> bool prog" where
  "run_steps act [] w = (Inr True, w)"
| "run_steps act (s # ss) w =
     (case act s w of
        (Inl e, w') \<Rightarrow> (Inl e, w')
      | (Inr _, w') \<Rightarrow> run_steps act ss w')"

section \<open>__main__.py\<close>

text \<open>
  The loop of \<open>main\<close> over the zipped runs. The two locals \<open>_phantom_patch\<close> and
  \<open>_phantom_extra_flags\<close> are \<open>None\<close> here while no assignment to them has run; the
  call's keyword arguments are evaluated in the order written, \<open>_phantom_patch\<close>
  before \<open>_phantom_extra_flags\<close>, and reading an unassigned local raises
  \<open>UnboundLocalError\<close> before the orchestrator is entered.
\<close>

fun main_loop ::
  "env \<Rightarrow> string \<Rightarrow> string option \<Rightarrow> string \<Rightarrow> string option \<Rightarrow> string list option
     \<Rightarrow> string \<Rightarrow> string \<Rightarrow> pydict option \<Rightarrow> string option
     \<Rightarrow> (string \<times> string \<times> string) list \<Rightarrow> unit prog" where
  "main_loop env run_prefix run_job_script phantom_dir phantom_version local_phantom_patch
       phantom_setup phantom_system local_phantom_extra_flags phantom_hdf5_dir [] w = (Inr (), w)"
| "main_loop env run_prefix run_job_script phantom_dir phantom_version local_phantom_patch
       phantom_setup phantom_system local_phantom_extra_flags phantom_hdf5_dir
       ((run_dir, setup_file, in_file) # runs) w =
     (case local_phantom_patch of
        None \<Rightarrow> (Inl (UnboundLocalError ''_phantom_patch''), w)
      | Some patches \<Rightarrow>
          (case local_phantom_extra_flags of
             None \<Rightarrow> (Inl (UnboundLocalError ''_phantom_extra_flags''), w)
           | Some flags \<Rightarrow>
               (case build_and_setup env run_prefix run_dir setup_file in_file run_job_script
                       phantom_dir phantom_version (Some patches) phantom_setup phantom_system
                       (Some flags) phantom_hdf5_dir w of
                  (Inl e, w') \<Rightarrow> (Inl e, w')
                | (Inr _, w') \<Rightarrow>
                    main_loop env run_prefix run_job_script phantom_dir phantom_version
                      local_phantom_patch phantom_setup phantom_system
                      local_phantom_extra_flags phantom_hdf5_dir runs w')))"

definition counts_error :: string where
  "counts_error =
     ''must supply the same number of run-dir, run-setup-file, and run-in-file options''"

definition main ::
  "env \<Rightarrow> string \<Rightarrow> string list \<Rightarrow> string list \<Rightarrow> string list \<Rightarrow> string \<Rightarrow> string
     \<Rightarrow> string option \<Rightarrow> string option \<Rightarrow> string option \<Rightarrow> string list option
     \<Rightarrow> string option \<Rightarrow> string option \<Rightarrow> unit prog" where
  "main env run_prefix run_dir run_setup_file run_in_file phantom_setup phantom_system
       phantom_extra_flags phantom_dir phantom_version phantom_patch phantom_hdf5_dir
       run_job_script w =
     (if \<not> (length run_dir = length run_setup_file \<and> length run_setup_file = length run_in_file)
      then (Inl (ValueError counts_error), w)
      else
        let phantom_dir = (case phantom_dir of None \<Rightarrow> ''phantom'' | Some d \<Rightarrow> d);
            local_phantom_patch = (case phantom_patch of None \<Rightarrow> None | Some t \<Rightarrow> Some t)
        in case (case phantom_extra_flags of
                   None \<Rightarrow> Inr None
                 | Some string \<Rightarrow>
                     (case convert_make_options_to_dict string of
                        Inl e \<Rightarrow> Inl e
                      | Inr d \<Rightarrow> Inr (Some d))) of
             Inl e \<Rightarrow> (Inl e, w)
           | Inr local_phantom_extra_flags \<Rightarrow>
               main_loop env run_prefix run_job_script phantom_dir phantom_version
                 local_phantom_patch phantom_setup phantom_system local_phantom_extra_flags
                 phantom_hdf5_dir (zip run_dir (zip run_setup_file run_in_file)) w)"

text \<open>
  The command line as click parses it for the decorators of \<open>main\<close>: an option declared
  \<open>multiple=True\<close> yields the tuple of its values, the empty tuple when it is absent
  (never \<open>None\<close>); any other option yields its value, or \<open>None\<close> when absent. A missing
  option declared \<open>required=True\<close> (for a multiple option: no value at all) is a usage
  error raised before the body of \<open>main\<close> runs.
\<close>

record cli =
  opt_run_prefix :: "string option"
  opt_run_dir :: "string list"
  opt_run_setup_file :: "string list"
  opt_run_in_file :: "string list"
  opt_run_job_script :: "string option"
  opt_phantom_setup :: "string option"
  opt_phantom_system :: "string option"
  opt_phantom_extra_flags :: "string option"
  opt_phantom_dir :: "string option"
  opt_phantom_version :: "string option"
  opt_phantom_patch :: "string list"
  opt_phantom_hdf5_dir :: "string option"

definition click_main :: "env \<Rightarrow> cli \<Rightarrow> unit prog" where
  "click_main env c w =
     (case (opt_run_prefix c, opt_phantom_setup c, opt_phantom_system c) of
        (Some run_prefix, Some phantom_setup, Some phantom_system) \<Rightarrow>
          if opt_run_dir c = [] \<or> opt_run_setup_file c = [] \<or> opt_run_in_file c = []
          then (Inl UsageError, w)
          else main env run_prefix (opt_run_dir c) (opt_run_setup_file c) (opt_run_in_file c)
                 phantom_setup phantom_system (opt_phantom_extra_flags c) (opt_phantom_dir c)
                 (opt_phantom_version c) (Some (opt_phantom_patch c)) (opt_phantom_hdf5_dir c)
                 (opt_run_job_script c) w
      | _ \<Rightarrow> (Inl UsageError, w))"

section \<open>Example environments\<close>

text \<open>
  A world in which every path resolves below \<open>/work\<close>, nothing exists yet, every
  command starts, exits with status 0 and prints nothing, and every file operation
  succeeds. The witnesses below vary it field by field.
\<close>

definition env0 :: env where
  "env0 =
     \<lparr>resolve_str = (\<lambda>s. [''work'', s]),
      resolve = (\<lambda>p. p),
      home = [''home'', ''user''],
      path_exists = (\<lambda>h p. False),
      proc = (\<lambda>h argv cwd. Some (0, [])),
      os_ok = (\<lambda>h ev. True)\<rparr>"

definition world0 :: world where
  "world0 = \<lparr>trace = [], logged = []\<rparr>"

text \<open>
The same world with every path present.
\<close>

definition env_exists :: env where
  "env_exists = env0\<lparr>path_exists := (\<lambda>h p. True)\<rparr>"

text \<open>
A world in which every command exits with status 1.
\<close>

definition env_clone_fails :: env where
  "env_clone_fails = env0\<lparr>proc := (\<lambda>h argv cwd. Some (1, []))\<rparr>"

text \<open>
A command line with one run, no extra flags and no patch.
\<close>

definition cli0 :: cli where
  "cli0 =
     \<lparr>opt_run_prefix = Some ''disc'',
      opt_run_dir = [''run1''],
      opt_run_setup_file = [''in/disc.setup''],
      opt_run_in_file = [''in/disc.in''],
      opt_run_job_script = None,
      opt_phantom_setup = Some ''disc'',
      opt_phantom_system = Some ''gfortran'',
      opt_phantom_extra_flags = None,
      opt_phantom_dir = None,
      opt_phantom_version = None,
      opt_phantom_patch = [],
      opt_phantom_hdf5_dir = None\<rparr>"

text \<open>
The newline that ends a line of output.
\<close>

definition nl :: string where
  "nl = [CHR 0x0A]"

text \<open>
A world in which the repository directory exists and \<open>git config\<close> prints the given text.
\<close>

definition env_origin :: "string \<Rightarrow> env" where
  "env_origin out = env0\<lparr>path_exists := (\<lambda>h p. True), proc := (\<lambda>h argv cwd. Some (0, out))\<rparr>"

text \<open>
  A world in which \<open>/work/phantom\<close> and everything below it exists once the program has
  issued a command, and nothing else ever does.
\<close>

definition env_clone_creates :: env where
  "env_clone_creates =
     env0\<lparr>path_exists := (\<lambda>h p. h \<noteq> [] \<and> take 2 p = [''work'', ''phantom''])\<rparr>"




text \<open>
A world in which every command, the setup binary too, prints \<open>done\<close> and exits with status 0.
\<close>

definition env_setup_ok :: env where
  "env_setup_ok = env0\<lparr>proc := (\<lambda>h argv cwd. Some (0, ''done'' @ nl))\<rparr>"

text \<open>
A world in which every \<open>git checkout\<close> exits with status 1 and every other command with 0.
\<close>

definition env_checkout_fails :: env where
  "env_checkout_fails =
     env0\<lparr>proc := (\<lambda>h argv cwd.
        if take 2 argv = [''git'', ''checkout''] then Some (1, []) else Some (0, []))\<rparr>"

section \<open>Properties: the make options\<close>

lemma py_split_nonempty: "py_split sep s \<noteq> []"
  by (induction s) (auto split: list.splits)

lemma py_split_no_sep: "sep \<notin> set s \<Longrightarrow> py_split sep s = [s]"
  by (induction s) auto

lemma py_split_first:
  "sep \<in> set s \<Longrightarrow>
   py_split sep s =
     takeWhile (\<lambda>c. c \<noteq> sep) s # py_split sep (drop 1 (dropWhile (\<lambda>c. c \<noteq> sep) s))"
proof (induction s)
  case Nil
  then show ?case by simp
next
  case (Cons c cs)
  show ?case
  proof (cases "c = sep")
    case True
    then show ?thesis by simp
  next
    case False
    with Cons.prems have "sep \<in> set cs" by simp
    with Cons.IH False show ?thesis by simp
  qed
qed

lemma count_one_rest:
  "count_list s sep = 1 \<Longrightarrow> sep \<in> set s \<and> sep \<notin> set (drop 1 (dropWhile (\<lambda>c. c \<noteq> sep) s))"
proof (induction s)
  case Nil
  then show ?case by simp
next
  case (Cons c cs)
  show ?case
  proof (cases "c = sep")
    case True
    with Cons.prems have "count_list cs sep = 0" by simp
    then have "sep \<notin> set cs" by (simp add: count_list_0_iff)
    with True show ?thesis by simp
  next
    case False
    with Cons.prems have "count_list cs sep = 1" by simp
    with Cons.IH False show ?thesis by simp
  qed
qed

lemma py_split_one_eq:
  assumes "count_list s (CHR ''='') = 1"
  shows "py_split (CHR ''='') s = [fst (split_first_eq s), snd (split_first_eq s)]"
  using count_one_rest [OF assms] py_split_first [of "CHR ''=''" s]
  by (simp add: split_first_eq_def py_split_no_sep)

lemma make_options_items_spec:
  "\<forall>p\<in>set ps. count_list p (CHR ''='') = 1 \<Longrightarrow>
   make_options_items ps d = Inr (spec_items ps d)"
proof (induction ps arbitrary: d)
  case Nil
  then show ?case by simp
next
  case (Cons p ps)
  then have one: "count_list p (CHR ''='') = 1" by simp
  from Cons have IH: "\<And>d. make_options_items ps d = Inr (spec_items ps d)" by simp
  show ?case
    by (simp add: py_split_one_eq [OF one] IH split: prod.splits)
qed

lemma filter_isspace_replace_space:
  assumes "\<forall>c\<in>set s. py_isspace c \<longrightarrow> c = CHR '' ''"
  shows "filter (\<lambda>c. \<not> py_isspace c) s = replace_space s"
  unfolding replace_space_def
proof (rule filter_cong [OF refl])
  fix c assume "c \<in> set s"
  with assms have "py_isspace c \<longrightarrow> c = CHR '' ''" by blast
  moreover have "py_isspace (CHR '' '')" by (simp add: py_isspace_def)
  ultimately show "(\<not> py_isspace c) = (c \<noteq> CHR '' '')" by auto
qed

text \<open>
  C3 (amended). For every input string whose only whitespace characters are spaces and
  in which every comma-separated pair, once the spaces are removed, holds exactly one
  \<open>=\<close>, \<open>_convert_make_options_to_dict\<close> returns the mapping the specification
  describes: whitespace removed, each pair split at its \<open>=\<close>. The two inputs
  \<open>A=1,B=2\<close> and \<open>A=1, B=2\<close> are such strings and give \<open>{A: 1, B: 2}\<close>.
\<close>

theorem convert_make_options_refines_spec:
  assumes "\<forall>c\<in>set string. py_isspace c \<longrightarrow> c = CHR '' ''"
    and "\<forall>p\<in>set (py_split (CHR '','') (replace_space string)). count_list p (CHR ''='') = 1"
  shows "convert_make_options_to_dict string = Inr (spec_convert_make_options string)"
  unfolding convert_make_options_to_dict_def spec_convert_make_options_def
  by (simp add: filter_isspace_replace_space [OF assms(1)] make_options_items_spec [OF assms(2)])

theorem convert_make_options_refines_spec_witness:
  "convert_make_options_to_dict ''A=1, B=2'' = Inr [(''A'', ''1''), (''B'', ''2'')]
   \<and> convert_make_options_to_dict ''A=1,B=2'' = Inr [(''A'', ''1''), (''B'', ''2'')]
   \<and> spec_convert_make_options ''A=1, B=2'' = [(''A'', ''1''), (''B'', ''2'')]"
proof -
  have h1: "\<forall>c\<in>set ''A=1, B=2''. py_isspace c \<longrightarrow> c = CHR '' ''"
    by (simp add: py_isspace_def)
  have h2: "\<forall>p\<in>set (py_split (CHR '','') (replace_space ''A=1, B=2'')). count_list p (CHR ''='') = 1"
    by (simp add: replace_space_def)
  have s: "spec_convert_make_options ''A=1, B=2'' = [(''A'', ''1''), (''B'', ''2'')]"
    by (simp add: spec_convert_make_options_def py_isspace_def split_first_eq_def)
  have e: "convert_make_options_to_dict ''A=1,B=2'' = Inr [(''A'', ''1''), (''B'', ''2'')]"
    by (simp add: convert_make_options_to_dict_def replace_space_def)
  from convert_make_options_refines_spec [OF h1 h2] s e show ?thesis by simp
qed

text \<open>
  C3 as stated fails: the code splits a pair at every \<open>=\<close> and keeps the first two
  fields, so the value of \<open>A=1=2\<close> is \<open>1\<close>, where a split on the first \<open>=\<close> only
  gives \<open>1=2\<close>.
\<close>

theorem convert_make_options_counterexample:
  "convert_make_options_to_dict ''A=1=2'' = Inr [(''A'', ''1'')]
   \<and> spec_convert_make_options ''A=1=2'' = [(''A'', ''1=2'')]
   \<and> convert_make_options_to_dict ''A=1=2'' \<noteq> Inr (spec_convert_make_options ''A=1=2'')"
  by (simp add: convert_make_options_to_dict_def replace_space_def
      spec_convert_make_options_def py_isspace_def split_first_eq_def)

section \<open>Properties: build_phantom\<close>

text \<open>
Logging leaves the trace of events as it is.
\<close>

lemma trace_log_info [simp]: "trace (log_info msg w) = trace w"
  by (simp add: log_info_def)

lemma trace_log_error [simp]: "trace (log_error msg w) = trace w"
  by (simp add: log_error_def)

lemma trace_banner [simp]: "trace (banner title w) = trace w"
  by (simp add: banner_def)

lemma trace_emit [simp]: "trace (emit ev w) = trace w @ [ev]"
  by (simp add: emit_def)

lemma subprocess_run_trace [simp]:
  "trace (snd (subprocess_run env argv cwd d w)) = trace w @ [Run argv cwd d]"
  by (simp add: subprocess_run_def split: option.splits prod.splits)

lemma os_call_trace [simp]: "trace (snd (os_call env ev w)) = trace w @ [ev]"
  by (simp add: os_call_def)

text \<open>
  C7. With no HDF5 location, \<open>build_phantom\<close> opens the build log and issues exactly one
  command: \<open>make\<close> with \<open>SETUP=<setup>\<close>, \<open>SYSTEM=<system>\<close> and the two targets
  \<open>phantom\<close> and \<open>setup\<close>, followed by one \<open>key=value\<close> argument per extra flag in the
  mapping's order, and by nothing when no extra flags are given. (The log file must open:
  a failing \<open>open\<close> raises before the command is run.)
\<close>

theorem build_phantom_command:
  assumes "os_ok env (trace w)
             (Open_write (resolved_path env phantom_dir @ [''build'', ''build_output.log'']))"
  shows "trace (snd (build_phantom env phantom_dir setup system None extra w)) =
           trace w @
           [Open_write (resolved_path env phantom_dir @ [''build'', ''build_output.log'']),
            Run ([''make'', ''SETUP='' @ setup, ''SYSTEM='' @ system, ''phantom'', ''setup'']
                 @ (case extra of None \<Rightarrow> [] | Some d \<Rightarrow> map (\<lambda>(key, val). key @ ''='' @ val) d))
              (resolved_path env phantom_dir)
              (To_file (resolved_path env phantom_dir @ [''build'', ''build_output.log'']))]"
  using assms
  by (cases extra)
     (simp_all add: build_phantom_def bind_res_def return_res_def os_call_def subprocess_run_def
       make_base_def make_extra_def path_join_def Let_def split: option.splits prod.splits)

theorem build_phantom_command_witness:
  "trace (snd (build_phantom env0 ''phantom'' ''disc'' ''gfortran'' None
                 (Some [(''ISOTHERMAL'', ''yes''), (''DUST'', ''yes'')]) world0)) =
     [Open_write [''work'', ''phantom'', ''build'', ''build_output.log''],
      Run [''make'', ''SETUP=disc'', ''SYSTEM=gfortran'', ''phantom'', ''setup'',
           ''ISOTHERMAL=yes'', ''DUST=yes'']
        [''work'', ''phantom'']
        (To_file [''work'', ''phantom'', ''build'', ''build_output.log''])]
   \<and> trace (snd (build_phantom env0 ''phantom'' ''disc'' ''gfortran'' None None world0)) =
     [Open_write [''work'', ''phantom'', ''build'', ''build_output.log''],
      Run [''make'', ''SETUP=disc'', ''SYSTEM=gfortran'', ''phantom'', ''setup'']
        [''work'', ''phantom'']
        (To_file [''work'', ''phantom'', ''build'', ''build_output.log''])]"
proof -
  have ok: "os_ok env0 (trace world0)
      (Open_write (resolved_path env0 ''phantom'' @ [''build'', ''build_output.log'']))"
    by (simp add: env0_def)
  show ?thesis
    using build_phantom_command [OF ok, of "''disc''" "''gfortran''"
        "Some [(''ISOTHERMAL'', ''yes''), (''DUST'', ''yes'')]"]
      build_phantom_command [OF ok, of "''disc''" "''gfortran''" None]
    by (simp add: env0_def world0_def resolved_path_def)
qed

text \<open>
  C6. With an HDF5 location that does not exist, \<open>build_phantom\<close> raises
  \<open>HDF5LibraryNotFound\<close> and performs no action at all: no build invocation is issued.
  With a location that exists (and a build log that opens), the command issued carries
  \<open>HDF5=yes\<close> and \<open>HDF5ROOT=\<close> followed by the text of the resolved, absolute path.
\<close>

theorem build_phantom_hdf5:
  "(\<not> path_exists env (trace w) (resolved_path env h) \<longrightarrow>
      fst (build_phantom env phantom_dir setup system (Some h) extra w) =
        Inl (HDF5LibraryNotFound ''Cannot determine HDF5 library location'')
      \<and> trace (snd (build_phantom env phantom_dir setup system (Some h) extra w)) = trace w)
   \<and> (path_exists env (trace w) (resolved_path env h)
      \<and> os_ok env (trace w)
           (Open_write (resolved_path env phantom_dir @ [''build'', ''build_output.log'']))
      \<longrightarrow>
      trace (snd (build_phantom env phantom_dir setup system (Some h) extra w)) =
        trace w @
        [Open_write (resolved_path env phantom_dir @ [''build'', ''build_output.log'']),
         Run ([''make'', ''SETUP='' @ setup, ''SYSTEM='' @ system, ''phantom'', ''setup'']
              @ [''HDF5=yes'', ''HDF5ROOT='' @ path_str (resolve env (resolved_path env h))]
              @ (case extra of None \<Rightarrow> [] | Some d \<Rightarrow> map (\<lambda>(key, val). key @ ''='' @ val) d))
           (resolved_path env phantom_dir)
           (To_file (resolved_path env phantom_dir @ [''build'', ''build_output.log'']))]
      \<and> take 1 (path_str (resolve env (resolved_path env h))) = ''/'')"
  by (cases extra)
     (simp_all add: build_phantom_def bind_res_def return_res_def os_call_def subprocess_run_def
       make_base_def make_extra_def path_join_def path_str_def Let_def split: option.splits prod.splits)

theorem build_phantom_hdf5_witness:
  "build_phantom env0 ''phantom'' ''disc'' ''gfortran'' (Some ''hdf5'') None world0 =
     (Inl (HDF5LibraryNotFound ''Cannot determine HDF5 library location''),
      banner ''>>> Building Phantom'' world0)
   \<and> trace (banner ''>>> Building Phantom'' world0) = []
   \<and> trace (snd (build_phantom env_exists ''phantom'' ''disc'' ''gfortran'' (Some ''hdf5'') None world0)) =
     [Open_write [''work'', ''phantom'', ''build'', ''build_output.log''],
      Run [''make'', ''SETUP=disc'', ''SYSTEM=gfortran'', ''phantom'', ''setup'',
           ''HDF5=yes'', ''HDF5ROOT=/work/hdf5'']
        [''work'', ''phantom'']
        (To_file [''work'', ''phantom'', ''build'', ''build_output.log''])]"
proof -
  have a: "\<not> path_exists env0 (trace world0) (resolved_path env0 ''hdf5'')"
    by (simp add: env0_def)
  have b: "path_exists env_exists (trace world0) (resolved_path env_exists ''hdf5'')
      \<and> os_ok env_exists (trace world0)
          (Open_write (resolved_path env_exists ''phantom'' @ [''build'', ''build_output.log'']))"
    by (simp add: env_exists_def env0_def)
  have c: "build_phantom env0 ''phantom'' ''disc'' ''gfortran'' (Some ''hdf5'') None world0 =
     (Inl (HDF5LibraryNotFound ''Cannot determine HDF5 library location''),
      banner ''>>> Building Phantom'' world0)"
    by (simp add: build_phantom_def bind_res_def env0_def resolved_path_def)
  show ?thesis
    using a b c
      build_phantom_hdf5 [of env0 world0 "''hdf5''" "''phantom''" "''disc''" "''gfortran''" None]
      build_phantom_hdf5 [of env_exists world0 "''hdf5''" "''phantom''" "''disc''" "''gfortran''" None]
    by (simp add: env_exists_def env0_def world0_def resolved_path_def path_str_def)
qed

section \<open>Properties: main\<close>

text \<open>
  C8. When the numbers of \<open>--run-dir\<close>, \<open>--run-setup-file\<close> and \<open>--run-in-file\<close> values are
  not all equal, \<open>main\<close> raises the \<open>ValueError\<close> of its first statement and the world is
  untouched: no event, no log record. Through click the same holds, the error being
  click's usage error when one of the three required options has no value at all.
\<close>

theorem main_counts_validation:
  assumes "\<not> (length (opt_run_dir c) = length (opt_run_setup_file c)
              \<and> length (opt_run_setup_file c) = length (opt_run_in_file c))"
  shows "main env run_prefix (opt_run_dir c) (opt_run_setup_file c) (opt_run_in_file c)
           phantom_setup phantom_system phantom_extra_flags phantom_dir phantom_version
           phantom_patch phantom_hdf5_dir run_job_script w
         = (Inl (ValueError counts_error), w)
       \<and> snd (click_main env c w) = w
       \<and> fst (click_main env c w) \<in> {Inl UsageError, Inl (ValueError counts_error)}"
  using assms
  by (auto simp add: main_def click_main_def split: option.splits)

theorem main_counts_validation_witness:
  "click_main env0 (cli0\<lparr>opt_run_dir := [''run1'', ''run2'']\<rparr>) world0
     = (Inl (ValueError counts_error), world0)
   \<and> main env0 ''disc'' [''run1'', ''run2''] [''in/disc.setup''] [''in/disc.in''] ''disc''
        ''gfortran'' None None None (Some []) None None world0
     = (Inl (ValueError counts_error), world0)"
proof -
  have h: "\<not> (length (opt_run_dir (cli0\<lparr>opt_run_dir := [''run1'', ''run2'']\<rparr>))
                = length (opt_run_setup_file (cli0\<lparr>opt_run_dir := [''run1'', ''run2'']\<rparr>))
              \<and> length (opt_run_setup_file (cli0\<lparr>opt_run_dir := [''run1'', ''run2'']\<rparr>))
                = length (opt_run_in_file (cli0\<lparr>opt_run_dir := [''run1'', ''run2'']\<rparr>)))"
    by (simp add: cli0_def)
  have m: "click_main env0 (cli0\<lparr>opt_run_dir := [''run1'', ''run2'']\<rparr>) world0 =
      main env0 ''disc'' [''run1'', ''run2''] [''in/disc.setup''] [''in/disc.in''] ''disc''
        ''gfortran'' None None None (Some []) None None world0"
    by (simp add: click_main_def cli0_def)
  from main_counts_validation [OF h, of env0 "''disc''" "''disc''" "''gfortran''" None None None
      "Some []" None None world0] m
  show ?thesis by (simp add: cli0_def)
qed

text \<open>
  C9 (amended). For a command line that passes click's checks and the count check of
  \<open>main\<close>, and has at least one run: when \<open>--phantom-extra-flags\<close> is omitted,
  \<open>_phantom_extra_flags\<close> is never assigned, and the call of the orchestrator for the
  first run raises \<open>UnboundLocalError\<close> with the world untouched.
\<close>

theorem main_unbound_extra_flags:
  assumes "opt_run_prefix c = Some run_prefix"
    and "opt_phantom_setup c = Some phantom_setup"
    and "opt_phantom_system c = Some phantom_system"
    and "length (opt_run_dir c) = length (opt_run_setup_file c)"
    and "length (opt_run_setup_file c) = length (opt_run_in_file c)"
    and "opt_run_dir c \<noteq> []"
    and "opt_phantom_extra_flags c = None"
  shows "click_main env c w = (Inl (UnboundLocalError ''_phantom_extra_flags''), w)"
proof -
  from assms(4,5,6) obtain rd rds sf sfs inf infs where
    l: "opt_run_dir c = rd # rds" "opt_run_setup_file c = sf # sfs" "opt_run_in_file c = inf # infs"
    by (cases "opt_run_dir c"; cases "opt_run_setup_file c"; cases "opt_run_in_file c") auto
  with assms show ?thesis
    by (simp add: click_main_def main_def)
qed

theorem main_unbound_extra_flags_witness:
  "click_main env0 cli0 world0 = (Inl (UnboundLocalError ''_phantom_extra_flags''), world0)"
  by (rule main_unbound_extra_flags [where run_prefix = "''disc''" and phantom_setup = "''disc''"
        and phantom_system = "''gfortran''"])
     (simp_all add: cli0_def)

text \<open>
  C9 as stated fails for \<open>--phantom-patch\<close>: with no patch on the command line click
  passes the empty tuple, not \<open>None\<close>, so \<open>_phantom_patch\<close> is assigned (the empty list).
  With extra flags given, the first run reaches the pipeline: here the clone is attempted
  and its failure is the error raised.
\<close>

theorem main_no_patch_counterexample:
  "opt_phantom_patch (cli0\<lparr>opt_phantom_extra_flags := Some ''A=1''\<rparr>) = []
   \<and> fst (click_main env_clone_fails (cli0\<lparr>opt_phantom_extra_flags := Some ''A=1''\<rparr>) world0)
       = Inl (RepoError ''Fail to clone repo'')
   \<and> trace (snd (click_main env_clone_fails (cli0\<lparr>opt_phantom_extra_flags := Some ''A=1''\<rparr>) world0))
       = [Run [''git'', ''clone'', ''https://bitbucket.org/danielprice/phantom.git'', ''phantom'']
            [''work''] Inherit]"
  by (simp add: click_main_def cli0_def main_def convert_make_options_to_dict_def replace_space_def
      build_and_setup_def bind_res_def get_phantom_def env_clone_fails_def env0_def world0_def
      resolved_path_def subprocess_run_def git_clone_cmd_def path_stem_def path_name_def
      path_parent_def Let_def)

section \<open>Properties: get_phantom\<close>

text \<open>
  C4 (amended). When the repository directory exists (and \<open>git config\<close> runs),
  \<open>get_phantom\<close> compares the output of
  \<open>git config --local --get remote.origin.url\<close>, with the whitespace at its two ends
  stripped, against the four accepted forms, as whole strings. It succeeds exactly when
  the stripped text is one of the four; for every other output it raises \<open>RepoError\<close>. In
  both cases the only action is the \<open>git config\<close> command.
\<close>

theorem get_phantom_origin_validation:
  assumes "path_exists env (trace w) (resolved_path env phantom_dir)"
    and "proc env (trace w) [''git'', ''config'', ''--local'', ''--get'', ''remote.origin.url'']
           (resolved_path env phantom_dir) = Some (rc, out)"
  shows "fst (get_phantom env phantom_dir w) =
           (if py_strip out \<in> {''git@bitbucket.org:danielprice/phantom'',
                                ''git@bitbucket.org:danielprice/phantom.git'',
                                ''https://bitbucket.org/danielprice/phantom'',
                                ''https://bitbucket.org/danielprice/phantom.git''}
            then Inr True
            else Inl (RepoError ''phantom_dir is not Phantom''))
       \<and> trace (snd (get_phantom env phantom_dir w)) =
           trace w @ [Run [''git'', ''config'', ''--local'', ''--get'', ''remote.origin.url'']
                        (resolved_path env phantom_dir) Pipe]"
  using assms
  by (simp add: get_phantom_def bind_res_def subprocess_run_def git_origin_cmd_def
      accepted_origins_def Let_def)

theorem get_phantom_origin_validation_witness:
  "fst (get_phantom (env_origin (''https://bitbucket.org/danielprice/phantom.git'' @ nl))
          ''phantom'' world0) = Inr True
   \<and> fst (get_phantom (env_origin (''https://github.com/danieljprice/phantom'' @ nl))
          ''phantom'' world0) = Inl (RepoError ''phantom_dir is not Phantom'')
   \<and> trace (snd (get_phantom (env_origin (''https://github.com/danieljprice/phantom'' @ nl))
          ''phantom'' world0)) =
       [Run [''git'', ''config'', ''--local'', ''--get'', ''remote.origin.url'']
          [''work'', ''phantom''] Pipe]"
proof -
  have e: "path_exists (env_origin out) (trace world0) (resolved_path (env_origin out) ''phantom'')"
    for out
    by (simp add: env_origin_def env0_def)
  have p: "proc (env_origin out) (trace world0)
             [''git'', ''config'', ''--local'', ''--get'', ''remote.origin.url'']
             (resolved_path (env_origin out) ''phantom'') = Some (0, out)" for out
    by (simp add: env_origin_def env0_def)
  have s1: "py_strip (''https://bitbucket.org/danielprice/phantom.git'' @ nl)
              = ''https://bitbucket.org/danielprice/phantom.git''"
    by (simp add: py_strip_def py_isspace_def nl_def)
  have s2: "py_strip (''https://github.com/danieljprice/phantom'' @ nl)
              = ''https://github.com/danieljprice/phantom''"
    by (simp add: py_strip_def py_isspace_def nl_def)
  have r: "resolved_path (env_origin out) ''phantom'' = [''work'', ''phantom'']" for out
    by (simp add: env_origin_def env0_def resolved_path_def)
  show ?thesis
    using get_phantom_origin_validation [OF e p, of "''https://bitbucket.org/danielprice/phantom.git'' @ nl"]
      get_phantom_origin_validation [OF e p, of "''https://github.com/danieljprice/phantom'' @ nl"]
    by (simp only: s1 s2 r) (simp add: world0_def)
qed

text \<open>
  C4 as stated fails: the match is made after stripping, not on the origin string as it
  is. An origin configured with a space after the URL is none of the four forms, and the
  validation accepts it.
\<close>

theorem get_phantom_origin_counterexample:
  "''https://bitbucket.org/danielprice/phantom '' \<notin>
      {''git@bitbucket.org:danielprice/phantom'',
       ''git@bitbucket.org:danielprice/phantom.git'',
       ''https://bitbucket.org/danielprice/phantom'',
       ''https://bitbucket.org/danielprice/phantom.git''}
   \<and> path_exists (env_origin (''https://bitbucket.org/danielprice/phantom '' @ nl))
        (trace world0)
        (resolved_path (env_origin (''https://bitbucket.org/danielprice/phantom '' @ nl)) ''phantom'')
   \<and> proc (env_origin (''https://bitbucket.org/danielprice/phantom '' @ nl)) (trace world0)
        [''git'', ''config'', ''--local'', ''--get'', ''remote.origin.url'']
        [''work'', ''phantom'']
       = Some (0, ''https://bitbucket.org/danielprice/phantom '' @ nl)
   \<and> fst (get_phantom (env_origin (''https://bitbucket.org/danielprice/phantom '' @ nl))
          ''phantom'' world0) = Inr True"
  by (simp add: get_phantom_def bind_res_def subprocess_run_def git_origin_cmd_def
      accepted_origins_def env_origin_def env0_def world0_def resolved_path_def Let_def
      py_strip_def py_isspace_def nl_def)

lemma py_rfind_absent: "c \<notin> set b \<Longrightarrow> py_rfind c b = -1"
  by (induction b) (auto simp: Let_def)

lemma py_rfind_last: "c \<notin> set b \<Longrightarrow> py_rfind c (a @ c # b) = int (length a)"
  by (induction a) (auto simp: Let_def py_rfind_absent)

lemma path_stem_suffix:
  assumes "a \<noteq> []" "b \<noteq> []" "CHR ''.'' \<notin> set b"
  shows "path_stem (parent @ [a @ CHR ''.'' # b]) = a"
proof -
  have "py_rfind (CHR ''.'') (a @ CHR ''.'' # b) = int (length a)"
    using assms(3) by (rule py_rfind_last)
  moreover have "0 < length a" "0 < length b" using assms by simp_all
  ultimately show ?thesis
    by (simp add: path_stem_def path_name_def Let_def)
qed

text \<open>
  C10 (amended). When the resolved repository directory does not exist, \<open>get_phantom\<close>
  issues \<open>git clone <url> <stem>\<close> in the parent directory, the stem being that of the
  directory's final component. If that component is \<open>a.b\<close> with \<open>a\<close> and \<open>b\<close> non-empty
  and no dot in \<open>b\<close> (its last dot is neither its first nor its last character), the stem
  is \<open>a\<close>: the clone goes to \<open>parent/a\<close>, which is not the repository directory; a clone
  that exits with status 0 is reported as success; and if nothing comes into existence
  outside the clone's target, the repository directory still does not exist afterwards.
\<close>

theorem get_phantom_clone_target:
  assumes "\<not> path_exists env (trace w) (resolved_path env phantom_dir)"
  shows "trace (snd (get_phantom env phantom_dir w)) =
           trace w @ [Run [''git'', ''clone'', ''https://bitbucket.org/danielprice/phantom.git'',
                           path_stem (resolved_path env phantom_dir)]
                        (path_parent (resolved_path env phantom_dir)) Inherit]
       \<and> (resolved_path env phantom_dir = parent @ [a @ ''.'' @ b]
            \<and> a \<noteq> [] \<and> b \<noteq> [] \<and> CHR ''.'' \<notin> set b
          \<longrightarrow>
            path_stem (resolved_path env phantom_dir) = a
            \<and> path_parent (resolved_path env phantom_dir) = parent
            \<and> path_join parent a \<noteq> resolved_path env phantom_dir
            \<and> ((\<exists>out. proc env (trace w)
                         [''git'', ''clone'', ''https://bitbucket.org/danielprice/phantom.git'', a]
                         parent = Some (0, out))
                 \<longrightarrow> fst (get_phantom env phantom_dir w) = Inr True)
            \<and> ((\<forall>p. path_exists env (trace (snd (get_phantom env phantom_dir w))) p \<longrightarrow>
                      path_exists env (trace w) p
                      \<or> take (length (path_join parent a)) p = path_join parent a)
                 \<longrightarrow> \<not> path_exists env (trace (snd (get_phantom env phantom_dir w)))
                         (resolved_path env phantom_dir)))"
proof -
  have tr: "trace (snd (get_phantom env phantom_dir w)) =
           trace w @ [Run [''git'', ''clone'', ''https://bitbucket.org/danielprice/phantom.git'',
                           path_stem (resolved_path env phantom_dir)]
                        (path_parent (resolved_path env phantom_dir)) Inherit]"
    using assms
    by (simp add: get_phantom_def bind_res_def subprocess_run_def git_clone_cmd_def Let_def
        split: option.splits prod.splits)
  have rest: "path_stem (resolved_path env phantom_dir) = a
            \<and> path_parent (resolved_path env phantom_dir) = parent
            \<and> path_join parent a \<noteq> resolved_path env phantom_dir
            \<and> ((\<exists>out. proc env (trace w)
                         [''git'', ''clone'', ''https://bitbucket.org/danielprice/phantom.git'', a]
                         parent = Some (0, out))
                 \<longrightarrow> fst (get_phantom env phantom_dir w) = Inr True)
            \<and> ((\<forall>p. path_exists env (trace (snd (get_phantom env phantom_dir w))) p \<longrightarrow>
                      path_exists env (trace w) p
                      \<or> take (length (path_join parent a)) p = path_join parent a)
                 \<longrightarrow> \<not> path_exists env (trace (snd (get_phantom env phantom_dir w)))
                         (resolved_path env phantom_dir))"
    if shape: "resolved_path env phantom_dir = parent @ [a @ ''.'' @ b]"
      and a: "a \<noteq> []" and b: "b \<noteq> []" and dot: "CHR ''.'' \<notin> set b"
  proof -
    have stem: "path_stem (resolved_path env phantom_dir) = a"
      using path_stem_suffix [OF a b dot, of parent] shape by simp
    have par: "path_parent (resolved_path env phantom_dir) = parent"
      using shape by (simp add: path_parent_def)
    have ne: "a \<noteq> a @ ''.'' @ b" by simp
    have diff: "path_join parent a \<noteq> resolved_path env phantom_dir"
      using shape ne by (simp add: path_join_def)
    have ok: "(\<exists>out. proc env (trace w)
                    [''git'', ''clone'', ''https://bitbucket.org/danielprice/phantom.git'', a] parent
                  = Some (0, out))
            \<longrightarrow> fst (get_phantom env phantom_dir w) = Inr True"
      using assms stem par
      by (auto simp add: get_phantom_def bind_res_def subprocess_run_def git_clone_cmd_def Let_def)
    have npre: "take (length (path_join parent a)) (resolved_path env phantom_dir)
                  \<noteq> path_join parent a"
      using shape ne by (simp add: path_join_def)
    have gone: "(\<forall>p. path_exists env (trace (snd (get_phantom env phantom_dir w))) p \<longrightarrow>
                 path_exists env (trace w) p
                 \<or> take (length (path_join parent a)) p = path_join parent a)
            \<longrightarrow> \<not> path_exists env (trace (snd (get_phantom env phantom_dir w)))
                    (resolved_path env phantom_dir)"
      using assms npre by blast
    from stem par diff ok gone show ?thesis by blast
  qed
  from tr rest show ?thesis by blast
qed

theorem get_phantom_clone_target_witness:
  "fst (get_phantom env_clone_creates ''phantom.v1'' world0) = Inr True
   \<and> trace (snd (get_phantom env_clone_creates ''phantom.v1'' world0)) =
       [Run [''git'', ''clone'', ''https://bitbucket.org/danielprice/phantom.git'', ''phantom'']
          [''work''] Inherit]
   \<and> path_exists env_clone_creates (trace (snd (get_phantom env_clone_creates ''phantom.v1'' world0)))
       [''work'', ''phantom'']
   \<and> resolved_path env_clone_creates ''phantom.v1'' = [''work'', ''phantom.v1'']
   \<and> \<not> path_exists env_clone_creates (trace (snd (get_phantom env_clone_creates ''phantom.v1'' world0)))
       (resolved_path env_clone_creates ''phantom.v1'')"
proof -
  have r: "resolved_path env_clone_creates ''phantom.v1'' = [''work''] @ [''phantom'' @ ''.'' @ ''v1'']"
    by (simp add: env_clone_creates_def env0_def resolved_path_def)
  have n: "\<not> path_exists env_clone_creates (trace world0) (resolved_path env_clone_creates ''phantom.v1'')"
    by (simp add: env_clone_creates_def env0_def world0_def)
  have p: "\<exists>out. proc env_clone_creates (trace world0)
             [''git'', ''clone'', ''https://bitbucket.org/danielprice/phantom.git'', ''phantom'']
             [''work''] = Some (0, out)"
    by (simp add: env_clone_creates_def env0_def)
  have loc: "\<forall>p. path_exists env_clone_creates t p \<longrightarrow>
               path_exists env_clone_creates (trace world0) p
               \<or> take (length (path_join [''work''] ''phantom'')) p = path_join [''work''] ''phantom''" for t
    by (simp add: env_clone_creates_def env0_def path_join_def numeral_2_eq_2)
  have sh: "''phantom'' \<noteq> [] \<and> ''v1'' \<noteq> [] \<and> CHR ''.'' \<notin> set ''v1''" by simp
  note inst = get_phantom_clone_target [OF n, of "[''work'']" "''phantom''" "''v1''"]
  from inst r sh have st: "path_stem (resolved_path env_clone_creates ''phantom.v1'') = ''phantom''"
    and pa: "path_parent (resolved_path env_clone_creates ''phantom.v1'') = [''work'']"
    by blast+
  from inst have t: "trace (snd (get_phantom env_clone_creates ''phantom.v1'' world0)) =
       [Run [''git'', ''clone'', ''https://bitbucket.org/danielprice/phantom.git'', ''phantom'']
          [''work''] Inherit]"
    by (simp add: st pa world0_def)
  from inst r sh p have ok: "fst (get_phantom env_clone_creates ''phantom.v1'' world0) = Inr True"
    by blast
  from inst r sh loc have gone:
    "\<not> path_exists env_clone_creates (trace (snd (get_phantom env_clone_creates ''phantom.v1'' world0)))
       (resolved_path env_clone_creates ''phantom.v1'')"
    by blast
  have ex: "path_exists env_clone_creates
       [Run [''git'', ''clone'', ''https://bitbucket.org/danielprice/phantom.git'', ''phantom'']
          [''work''] Inherit] [''work'', ''phantom'']"
    by (simp add: env_clone_creates_def env0_def)
  have r': "resolved_path env_clone_creates ''phantom.v1'' = [''work'', ''phantom.v1'']"
    by (simp add: env_clone_creates_def env0_def resolved_path_def)
  from ok t gone ex r' show ?thesis by simp
qed

text \<open>
  C10 as stated fails for a final component whose only dot is its first character (or
  its last): pathlib's stem of \<open>.phantom\<close> is \<open>.phantom\<close>, so the clone goes to the
  repository directory itself.
\<close>

theorem get_phantom_clone_target_counterexample:
  "CHR ''.'' \<in> set (path_name (resolved_path env0 ''.phantom''))
   \<and> \<not> path_exists env0 (trace world0) (resolved_path env0 ''.phantom'')
   \<and> fst (get_phantom env0 ''.phantom'' world0) = Inr True
   \<and> trace (snd (get_phantom env0 ''.phantom'' world0)) =
       [Run [''git'', ''clone'', ''https://bitbucket.org/danielprice/phantom.git'', ''.phantom'']
          [''work''] Inherit]
   \<and> path_join [''work''] ''.phantom'' = resolved_path env0 ''.phantom''"
  by (simp add: env0_def world0_def resolved_path_def path_name_def get_phantom_def bind_res_def
      subprocess_run_def git_clone_cmd_def path_stem_def path_parent_def path_join_def Let_def)

section \<open>Properties: checkout_phantom_version\<close>







section \<open>Properties: the pipeline and setup_calculation\<close>

text \<open>
Running two lists of steps one after the other.
\<close>

lemma run_steps_append:
  "run_steps act (xs @ ys) w =
     (case run_steps act xs w of
        (Inl e, w') \<Rightarrow> (Inl e, w')
      | (Inr _, w') \<Rightarrow> run_steps act ys w')"
  by (induction xs arbitrary: w) (auto split: prod.splits sum.splits)

lemma run_steps_abort:
  assumes "run_steps act ss1 w = (Inr True, w1)" and "act s w1 = (Inl e, w2)"
  shows "run_steps act (ss1 @ s # ss2) w = (Inl e, w2)"
  using assms by (simp add: run_steps_append)

lemma run_steps_value: "run_steps act ss w = (Inr b, w') \<Longrightarrow> b"
  by (induction ss arbitrary: w) (auto split: prod.splits sum.splits)

lemma bind_res_Inr:
  "bind_res m f w = (Inr b, w') \<Longrightarrow> \<exists>x w1. m w = (Inr x, w1) \<and> f x w1 = (Inr b, w')"
  by (auto simp add: bind_res_def split: prod.splits sum.splits)

lemma get_phantom_value: "get_phantom env phantom_dir w = (Inr b, w') \<Longrightarrow> b"
  by (auto simp add: get_phantom_def Let_def dest!: bind_res_Inr split: if_splits)

lemma clean_if_dirty_value: "clean_if_dirty env pd w = (Inr b, w') \<Longrightarrow> b"
  by (auto simp add: clean_if_dirty_def Let_def dest!: bind_res_Inr split: if_splits)

lemma checkout_phantom_version_value:
  "checkout_phantom_version env phantom_dir required w = (Inr b, w') \<Longrightarrow> b"
  by (auto simp add: checkout_phantom_version_def Let_def dest!: bind_res_Inr
      dest: clean_if_dirty_value)

lemma patch_phantom_value: "patch_phantom env phantom_dir patch w = (Inr b, w') \<Longrightarrow> b"
  by (auto simp add: patch_phantom_def Let_def dest!: bind_res_Inr split: if_splits)

lemma build_phantom_value:
  "build_phantom env phantom_dir setup system hdf5 flags w = (Inr b, w') \<Longrightarrow> b"
  by (auto simp add: build_phantom_def Let_def dest!: bind_res_Inr split: if_splits)

text \<open>
The object \<open>Popen\<close> returns has no exit status.
\<close>

lemma subprocess_Popen_returncode:
  "subprocess_Popen env argv cwd d w = (Inr result, w') \<Longrightarrow> popen_returncode result = None"
  by (auto simp add: subprocess_Popen_def split: option.splits)

text \<open>
  So \<open>setup_calculation\<close> never returns: whenever it gets as far as the test of
  \<open>result.returncode\<close>, it raises.
\<close>

lemma setup_calculation_never_returns:
  "setup_calculation env prefix run_dir input_dir phantom_dir w \<noteq> (Inr b, w')"
proof
  assume "setup_calculation env prefix run_dir input_dir phantom_dir w = (Inr b, w')"
  then obtain result w1 w2 where
    p: "subprocess_Popen env [''./phantomsetup'', prefix] (resolved_path env run_dir) Pipe w1
          = (Inr result, w2)"
    and c: "popen_returncode result = Some 0"
    by (auto simp add: setup_calculation_def Let_def dest!: bind_res_Inr split: if_splits)
  from subprocess_Popen_returncode [OF p] c show False by simp
qed

lemma setup_calculation_value:
  "setup_calculation env prefix run_dir input_dir phantom_dir w = (Inr b, w') \<Longrightarrow> b"
  by (simp add: setup_calculation_never_returns)

lemma step_action_value:
  "step_action env prefix run_dir setup_file phantom_dir setup system flags hdf5 s w = (Inr b, w')
   \<Longrightarrow> b"
  by (cases s)
     (auto dest: get_phantom_value checkout_phantom_version_value patch_phantom_value
        build_phantom_value setup_calculation_value)

lemma apply_patches_run_steps:
  "apply_patches env phantom_dir patches w =
     run_steps (step_action env prefix run_dir setup_file phantom_dir setup system flags hdf5)
       (map Apply_patch patches) w"
  by (induction patches arbitrary: w)
     (auto simp add: return_res_def bind_res_def split: prod.splits sum.splits)

lemma bind_res_run_steps:
  assumes "\<And>w. m w = run_steps act xs w" and "\<And>w. k w = run_steps act ys w"
  shows "bind_res m (\<lambda>_. k) w = run_steps act (xs @ ys) w"
  by (simp add: bind_res_def run_steps_append assms split: prod.splits sum.splits)

lemma run_steps_single:
  assumes "\<And>b w'. act s w = (Inr b, w') \<Longrightarrow> b"
  shows "act s w = run_steps act [s] w"
proof (cases "act s w")
  case (Pair r w')
  show ?thesis
  proof (cases r)
    case (Inl e)
    with Pair show ?thesis by simp
  next
    case (Inr b)
    with Pair assms [of b w'] have "b = True" by simp
    with Pair Inr show ?thesis by simp
  qed
qed

lemma build_and_setup_run_steps:
  "build_and_setup env prefix run_dir setup_file in_file job_script phantom_dir phantom_version
       phantom_patches phantom_setup phantom_system phantom_extra_flags hdf5_dir w =
     run_steps
       (step_action env prefix run_dir setup_file phantom_dir phantom_setup phantom_system
          phantom_extra_flags hdf5_dir)
       (pipeline_steps phantom_version phantom_patches) w"
proof -
  let ?act = "step_action env prefix run_dir setup_file phantom_dir phantom_setup phantom_system
          phantom_extra_flags hdf5_dir"
  have one: "?act s w' = run_steps ?act [s] w'" for s w'
    by (rule run_steps_single) (rule step_action_value)
  have g: "get_phantom env phantom_dir w' = run_steps ?act [Get_repository] w'" for w'
    using one [of Get_repository w'] by simp
  have v: "(case phantom_version of None \<Rightarrow> return_res True
            | Some version \<Rightarrow> checkout_phantom_version env phantom_dir version) w' =
           run_steps ?act
             (case phantom_version of None \<Rightarrow> [] | Some version \<Rightarrow> [Checkout_version version]) w'"
    for w'
  proof (cases phantom_version)
    case None
    then show ?thesis by (simp add: return_res_def)
  next
    case (Some version)
    then show ?thesis using one [of "Checkout_version version" w'] by simp
  qed
  have p: "(case phantom_patches of None \<Rightarrow> return_res True
            | Some patches \<Rightarrow> apply_patches env phantom_dir patches) w' =
           run_steps ?act
             (case phantom_patches of None \<Rightarrow> [] | Some patches \<Rightarrow> map Apply_patch patches) w'"
    for w'
    by (cases phantom_patches)
       (simp_all add: return_res_def
          apply_patches_run_steps [of env phantom_dir _ _ prefix run_dir setup_file phantom_setup
            phantom_system phantom_extra_flags hdf5_dir])
  have b: "build_phantom env phantom_dir phantom_setup phantom_system hdf5_dir phantom_extra_flags w'
           = run_steps ?act [Build] w'" for w'
    using one [of Build w'] by simp
  have s: "setup_calculation env prefix run_dir (dirname setup_file) phantom_dir w'
           = run_steps ?act [Setup_calculation] w'" for w'
    using one [of Setup_calculation w'] by simp
  have bs: "bind_res
              (build_phantom env phantom_dir phantom_setup phantom_system hdf5_dir phantom_extra_flags)
              (\<lambda>_. setup_calculation env prefix run_dir (dirname setup_file) phantom_dir) w'
            = run_steps ?act ([Build] @ [Setup_calculation]) w'" for w'
    by (rule bind_res_run_steps) (rule b, rule s)
  have pbs: "bind_res
              (case phantom_patches of None \<Rightarrow> return_res True
               | Some patches \<Rightarrow> apply_patches env phantom_dir patches)
              (\<lambda>_. bind_res
                 (build_phantom env phantom_dir phantom_setup phantom_system hdf5_dir phantom_extra_flags)
                 (\<lambda>_. setup_calculation env prefix run_dir (dirname setup_file) phantom_dir)) w'
            = run_steps ?act
                ((case phantom_patches of None \<Rightarrow> [] | Some patches \<Rightarrow> map Apply_patch patches)
                 @ [Build] @ [Setup_calculation]) w'" for w'
    by (rule bind_res_run_steps) (rule p, rule bs)
  have vpbs: "bind_res
              (case phantom_version of None \<Rightarrow> return_res True
               | Some version \<Rightarrow> checkout_phantom_version env phantom_dir version)
              (\<lambda>_. bind_res
                 (case phantom_patches of None \<Rightarrow> return_res True
                  | Some patches \<Rightarrow> apply_patches env phantom_dir patches)
                 (\<lambda>_. bind_res
                    (build_phantom env phantom_dir phantom_setup phantom_system hdf5_dir
                       phantom_extra_flags)
                    (\<lambda>_. setup_calculation env prefix run_dir (dirname setup_file) phantom_dir))) w'
            = run_steps ?act
                ((case phantom_version of None \<Rightarrow> [] | Some version \<Rightarrow> [Checkout_version version])
                 @ (case phantom_patches of None \<Rightarrow> [] | Some patches \<Rightarrow> map Apply_patch patches)
                 @ [Build] @ [Setup_calculation]) w'" for w'
    by (rule bind_res_run_steps) (rule v, rule pbs)
  have all: "build_and_setup env prefix run_dir setup_file in_file job_script phantom_dir
               phantom_version phantom_patches phantom_setup phantom_system phantom_extra_flags
               hdf5_dir w
            = run_steps ?act
                ([Get_repository]
                 @ (case phantom_version of None \<Rightarrow> [] | Some version \<Rightarrow> [Checkout_version version])
                 @ (case phantom_patches of None \<Rightarrow> [] | Some patches \<Rightarrow> map Apply_patch patches)
                 @ [Build] @ [Setup_calculation]) w"
    unfolding build_and_setup_def
    by (rule bind_res_run_steps) (rule g, rule vpbs)
  show ?thesis
    unfolding all pipeline_steps_def by simp
qed

text \<open>
  C1. \<open>build_and_setup\<close> is the execution, in order and stopping at the first failure,
  of this list of steps: get the repository; check out the version, only if one is given;
  apply each patch in the given order, only if any; build; set up the calculation. When
  the steps before some step all succeed and that step fails, the orchestrator's result is
  that step's error and the world is the one that step left: no later step has run.
\<close>

theorem build_and_setup_runs_pipeline_in_order:
  "build_and_setup env prefix run_dir setup_file in_file job_script phantom_dir phantom_version
       phantom_patches phantom_setup phantom_system phantom_extra_flags hdf5_dir w =
     run_steps
       (step_action env prefix run_dir setup_file phantom_dir phantom_setup phantom_system
          phantom_extra_flags hdf5_dir)
       ([Get_repository]
        @ (case phantom_version of None \<Rightarrow> [] | Some version \<Rightarrow> [Checkout_version version])
        @ (case phantom_patches of None \<Rightarrow> [] | Some patches \<Rightarrow> map Apply_patch patches)
        @ [Build, Setup_calculation]) w
   \<and> (\<forall>ss1 s ss2 w1 e w2.
        [Get_repository]
        @ (case phantom_version of None \<Rightarrow> [] | Some version \<Rightarrow> [Checkout_version version])
        @ (case phantom_patches of None \<Rightarrow> [] | Some patches \<Rightarrow> map Apply_patch patches)
        @ [Build, Setup_calculation] = ss1 @ s # ss2
        \<and> run_steps
            (step_action env prefix run_dir setup_file phantom_dir phantom_setup phantom_system
               phantom_extra_flags hdf5_dir) ss1 w = (Inr True, w1)
        \<and> step_action env prefix run_dir setup_file phantom_dir phantom_setup phantom_system
               phantom_extra_flags hdf5_dir s w1 = (Inl e, w2)
        \<longrightarrow> build_and_setup env prefix run_dir setup_file in_file job_script phantom_dir
              phantom_version phantom_patches phantom_setup phantom_system phantom_extra_flags
              hdf5_dir w = (Inl e, w2))"
proof -
  have r: "build_and_setup env prefix run_dir setup_file in_file job_script phantom_dir phantom_version
       phantom_patches phantom_setup phantom_system phantom_extra_flags hdf5_dir w =
     run_steps
       (step_action env prefix run_dir setup_file phantom_dir phantom_setup phantom_system
          phantom_extra_flags hdf5_dir)
       ([Get_repository]
        @ (case phantom_version of None \<Rightarrow> [] | Some version \<Rightarrow> [Checkout_version version])
        @ (case phantom_patches of None \<Rightarrow> [] | Some patches \<Rightarrow> map Apply_patch patches)
        @ [Build, Setup_calculation]) w"
    using build_and_setup_run_steps [of env prefix run_dir setup_file in_file job_script phantom_dir
        phantom_version phantom_patches phantom_setup phantom_system phantom_extra_flags hdf5_dir w]
    by (simp only: pipeline_steps_def)
  show ?thesis
  proof (intro conjI allI impI)
    show "build_and_setup env prefix run_dir setup_file in_file job_script phantom_dir phantom_version
       phantom_patches phantom_setup phantom_system phantom_extra_flags hdf5_dir w =
     run_steps
       (step_action env prefix run_dir setup_file phantom_dir phantom_setup phantom_system
          phantom_extra_flags hdf5_dir)
       ([Get_repository]
        @ (case phantom_version of None \<Rightarrow> [] | Some version \<Rightarrow> [Checkout_version version])
        @ (case phantom_patches of None \<Rightarrow> [] | Some patches \<Rightarrow> map Apply_patch patches)
        @ [Build, Setup_calculation]) w"
      by (rule r)
  next
    fix ss1 s ss2 w1 e w2
    assume a: "[Get_repository]
        @ (case phantom_version of None \<Rightarrow> [] | Some version \<Rightarrow> [Checkout_version version])
        @ (case phantom_patches of None \<Rightarrow> [] | Some patches \<Rightarrow> map Apply_patch patches)
        @ [Build, Setup_calculation] = ss1 @ s # ss2
        \<and> run_steps
            (step_action env prefix run_dir setup_file phantom_dir phantom_setup phantom_system
               phantom_extra_flags hdf5_dir) ss1 w = (Inr True, w1)
        \<and> step_action env prefix run_dir setup_file phantom_dir phantom_setup phantom_system
               phantom_extra_flags hdf5_dir s w1 = (Inl e, w2)"
    then show "build_and_setup env prefix run_dir setup_file in_file job_script phantom_dir
              phantom_version phantom_patches phantom_setup phantom_system phantom_extra_flags
              hdf5_dir w = (Inl e, w2)"
      unfolding r by (simp only: run_steps_abort)
  qed
qed

theorem build_and_setup_runs_pipeline_in_order_witness:
  "fst (build_and_setup env_checkout_fails ''disc'' ''run'' ''in/disc.setup'' ''in/disc.in'' None
          ''phantom'' (Some ''4b0f1c2'') (Some [''fix.patch'']) ''disc'' ''gfortran'' None None world0)
     = Inl (RepoError ''Failed to checkout required version'')
   \<and> trace (snd (build_and_setup env_checkout_fails ''disc'' ''run'' ''in/disc.setup''
          ''in/disc.in'' None ''phantom'' (Some ''4b0f1c2'') (Some [''fix.patch'']) ''disc''
          ''gfortran'' None None world0))
     = [Run [''git'', ''clone'', ''https://bitbucket.org/danielprice/phantom.git'', ''phantom'']
          [''work''] Inherit,
        Run [''git'', ''rev-parse'', ''HEAD''] [''work'', ''phantom''] Pipe,
        Run [''git'', ''rev-parse'', ''--short'', ''4b0f1c2''] [''work'', ''phantom''] Pipe,
        Run [''git'', ''checkout'', ''4b0f1c2''] [''work'', ''phantom''] Inherit]"
proof -
  let ?act = "step_action env_checkout_fails ''disc'' ''run'' ''in/disc.setup'' ''phantom''
                ''disc'' ''gfortran'' None None"
  define w1 where "w1 = snd (get_phantom env_checkout_fails ''phantom'' world0)"
  define w2 where "w2 = snd (checkout_phantom_version env_checkout_fails ''phantom'' ''4b0f1c2'' w1)"
  have g: "get_phantom env_checkout_fails ''phantom'' world0 = (Inr True, w1)"
    by (simp add: w1_def get_phantom_def bind_res_def subprocess_run_def env_checkout_fails_def
        env0_def world0_def resolved_path_def git_clone_cmd_def Let_def prod_eq_iff)
  have t1: "trace w1 =
      [Run [''git'', ''clone'', ''https://bitbucket.org/danielprice/phantom.git'', ''phantom'']
          [''work''] Inherit]"
    by (simp add: w1_def get_phantom_def bind_res_def subprocess_run_def env_checkout_fails_def
        env0_def world0_def resolved_path_def git_clone_cmd_def Let_def path_stem_def
        path_name_def path_parent_def)
  have s: "py_strip [] = []" by (simp add: py_strip_def)
  have c: "checkout_phantom_version env_checkout_fails ''phantom'' ''4b0f1c2'' w1 =
             (Inl (RepoError ''Failed to checkout required version''), w2)"
    by (simp add: w2_def checkout_phantom_version_def checkout_if_needed_def bind_res_def
        subprocess_run_def env_checkout_fails_def env0_def resolved_path_def git_checkout_cmd_def
        Let_def prod_eq_iff s)
  have t2: "trace w2 = trace w1 @
       [Run [''git'', ''rev-parse'', ''HEAD''] [''work'', ''phantom''] Pipe,
        Run [''git'', ''rev-parse'', ''--short'', ''4b0f1c2''] [''work'', ''phantom''] Pipe,
        Run [''git'', ''checkout'', ''4b0f1c2''] [''work'', ''phantom''] Inherit]"
    by (simp add: w2_def checkout_phantom_version_def checkout_if_needed_def bind_res_def
        subprocess_run_def env_checkout_fails_def env0_def resolved_path_def git_checkout_cmd_def
        Let_def s)
  have steps: "[Get_repository]
        @ (case Some ''4b0f1c2'' of None \<Rightarrow> [] | Some version \<Rightarrow> [Checkout_version version])
        @ (case Some [''fix.patch''] of None \<Rightarrow> [] | Some patches \<Rightarrow> map Apply_patch patches)
        @ [Build, Setup_calculation]
      = [Get_repository] @ Checkout_version ''4b0f1c2'' # [Apply_patch ''fix.patch'', Build, Setup_calculation]"
    by simp
  have r1: "run_steps ?act [Get_repository] world0 = (Inr True, w1)"
    by (simp add: g)
  have r2: "?act (Checkout_version ''4b0f1c2'') w1 =
              (Inl (RepoError ''Failed to checkout required version''), w2)"
    by (simp add: c)
  have "build_and_setup env_checkout_fails ''disc'' ''run'' ''in/disc.setup'' ''in/disc.in'' None
          ''phantom'' (Some ''4b0f1c2'') (Some [''fix.patch'']) ''disc'' ''gfortran'' None None world0
        = (Inl (RepoError ''Failed to checkout required version''), w2)"
    using build_and_setup_runs_pipeline_in_order [of env_checkout_fails "''disc''" "''run''"
        "''in/disc.setup''" "''in/disc.in''" None "''phantom''" "Some ''4b0f1c2''"
        "Some [''fix.patch'']" "''disc''" "''gfortran''" None None world0]
      steps r1 r2
    by blast
  then show ?thesis by (simp add: t2 t1)
qed

text \<open>
  C2 fails on the code. With a setup binary that exits with status 0 and every file
  operation succeeding, \<open>setup_calculation\<close> still raises \<open>SetupError\<close>, and the trace
  holds one copy of the \<open>.in\<close> file only, the one made before the binary ran.
\<close>

theorem setup_calculation_exit_zero_raises:
  "(\<forall>h cwd. proc env_setup_ok h [''./phantomsetup'', ''disc''] cwd = Some (0, ''done'' @ nl))
   \<and> fst (setup_calculation env_setup_ok ''disc'' ''run'' ''in'' ''phantom'' world0)
       = Inl (SetupError ''Phantom failed to set up calculation'')
   \<and> trace (snd (setup_calculation env_setup_ok ''disc'' ''run'' ''in'' ''phantom'' world0))
       = [Mkdir [''work'', ''run''],
          Copy [''work'', ''phantom'', ''bin'', ''phantom''] [''work'', ''run''],
          Copy [''work'', ''phantom'', ''bin'', ''phantomsetup''] [''work'', ''run''],
          Copy [''work'', ''phantom'', ''bin'', ''phantom_version''] [''work'', ''run''],
          Copy [''work'', ''in'', ''disc.setup''] [''work'', ''run''],
          Copy [''work'', ''in'', ''disc.in''] [''work'', ''run''],
          Open_write [''work'', ''run'', ''disc00.log''],
          Run [''./phantomsetup'', ''disc''] [''work'', ''run''] Pipe,
          Write_stdout (''done'' @ nl),
          Write_file [''work'', ''run'', ''disc00.log''] (''done'' @ nl)]"
  by (simp add: setup_calculation_def bind_res_def return_res_def os_call_def subprocess_Popen_def
      env_setup_ok_def env0_def world0_def resolved_path_def path_join_def Let_def nl_def)

end
